theory Spec2Isabelle
  imports Main
begin

section \<open>Data model (src/src/App.tsx, lines 12-31)\<close>

text \<open>
  A Firestore \<open>Timestamp\<close> and a JavaScript \<open>Date\<close> are both an instant with millisecond
  resolution here (\<open>Timestamp.fromDate\<close> and \<open>toDate\<close> are inverse on those), so an
  instant is an integer number of milliseconds. Document ids are strings.
\<close>

type_synonym timestamp = int
type_synonym doc_id = string

datatype booking_status = booked | cancelled

text \<open>\<open>equipmentForm\<close> is the pair of fields of the add and edit dialogs; an equipment
  document spreads it (\<open>{ ...equipmentForm, createdAt }\<close>) and adds the two stamps.\<close>

record equipment_form =
  name :: string
  description :: string

record equipment_data = equipment_form +
  createdAt :: "timestamp option"
  updatedAt :: "timestamp option"

text \<open>\<open>Omit<Booking, 'id'>\<close>: the fields of a booking document.\<close>

record booking_data =
  equipmentId :: doc_id
  equipmentName :: string
  userId :: string
  userDisplayName :: string
  startDate :: timestamp
  endDate :: timestamp
  status :: booking_status
  bookedAt :: timestamp
  cancelledAt :: "timestamp option"

text \<open>\<open>Equipment\<close> and \<open>Booking\<close>: a document id with the document's fields, as the
  snapshot listeners build them (\<open>{ id: doc.id, ...doc.data() }\<close>).\<close>

type_synonym equipment = "doc_id \<times> equipment_data"
type_synonym booking = "doc_id \<times> booking_data"

section \<open>The remote document store\<close>

text \<open>
  The three collections the application uses, all under the same \<open>artifacts/${appId}\<close>
  prefix: \<open>public/data/equipment\<close>, \<open>public/data/bookings\<close> and
  \<open>users/${userId}/bookings\<close>. A collection is the list of its documents. The store
  also records, in \<open>oplog\<close>, every call this client makes: \<open>Issue\<close> when the call is
  made, and \<open>Ack\<close> or \<open>Nack\<close> when the caller awaits it and it resolves or rejects.
  A call that is not awaited leaves an \<open>Issue\<close> only.

  The store is taken to be reachable and to permit every call: a call fails only where
  its own arguments or the stored documents decide it. That is the update of a document
  that does not exist (\<open>NotFound\<close>) and the create of a document with a time stamp made
  from an Invalid Date (\<open>InvalidTime\<close>): \<open>Timestamp.fromDate\<close> accepts such a date, and
  the store client raises (RangeError, invalid time value) when \<open>addDoc\<close> serialises the
  stamp, before anything is sent. So the \<open>catch\<close> branches of \<open>addEquipment\<close> and
  \<open>deleteEquipment\<close>, which only a failing network or a denied permission can reach, have
  no counterpart below.
\<close>

datatype bookings_path = PublicBookings | UserBookings string

datatype collection = EquipmentCol | BookingsCol bookings_path

datatype store_op =
    GetDocs collection
  | AddDoc collection doc_id
  | UpdateDoc collection doc_id
  | DeleteDoc collection doc_id

datatype store_event = Issue store_op | Ack store_op | Nack store_op

datatype store_error = NotFound | InvalidTime

record store =
  equipmentDocs :: "equipment list"
  publicBookings :: "booking list"
  userBookings :: "string \<Rightarrow> booking list"
  oplog :: "store_event list"

fun bookingDocs :: "bookings_path \<Rightarrow> store \<Rightarrow> booking list" where
  "bookingDocs PublicBookings r = publicBookings r"
| "bookingDocs (UserBookings u) r = userBookings r u"

fun putBookingDocs :: "bookings_path \<Rightarrow> booking list \<Rightarrow> store \<Rightarrow> store" where
  "putBookingDocs PublicBookings ds r = r\<lparr>publicBookings := ds\<rparr>"
| "putBookingDocs (UserBookings u) ds r = r\<lparr>userBookings := (userBookings r)(u := ds)\<rparr>"

definition logCall :: "bool \<Rightarrow> bool \<Rightarrow> store_op \<Rightarrow> store \<Rightarrow> store" where
  "logCall awaited ok op r =
     r\<lparr>oplog := oplog r @ Issue op # (if awaited then [if ok then Ack op else Nack op] else [])\<rparr>"

text \<open>The id the store assigns to a new document: one no document of the collection has
  (here a string longer than all of them).\<close>

definition autoId :: "doc_id list \<Rightarrow> doc_id" where
  "autoId ids = replicate (Suc (foldr (\<lambda>i n. max (length i) n) ids 0)) CHR ''0''"

text \<open>\<open>getDocs(query(collection, where ...))\<close>: a one-shot read of the matching documents.\<close>

definition getBookingDocs ::
  "bookings_path \<Rightarrow> (booking_data \<Rightarrow> bool) \<Rightarrow> store \<Rightarrow> booking list \<times> store" where
  "getBookingDocs p matches r =
     (filter (\<lambda>d. matches (snd d)) (bookingDocs p r),
      logCall True True (GetDocs (BookingsCol p)) r)"

definition addBookingDoc :: "bool \<Rightarrow> bookings_path \<Rightarrow> booking_data \<Rightarrow> store \<Rightarrow> store" where
  "addBookingDoc awaited p d r =
     (let i = autoId (map fst (bookingDocs p r))
      in logCall awaited True (AddDoc (BookingsCol p) i)
           (putBookingDocs p (bookingDocs p r @ [(i, d)]) r))"

text \<open>\<open>updateDoc\<close> merges the given fields into the document with that id, and fails when
  the collection has no such document.\<close>

definition updateBookingDoc ::
  "bool \<Rightarrow> bookings_path \<Rightarrow> doc_id \<Rightarrow> (booking_data \<Rightarrow> booking_data) \<Rightarrow> store
     \<Rightarrow> store_error option \<times> store" where
  "updateBookingDoc awaited p i f r =
     (if i \<in> set (map fst (bookingDocs p r))
      then (None,
            logCall awaited True (UpdateDoc (BookingsCol p) i)
              (putBookingDocs p
                 (map (\<lambda>d. if fst d = i then (fst d, f (snd d)) else d) (bookingDocs p r)) r))
      else (Some NotFound, logCall awaited False (UpdateDoc (BookingsCol p) i) r))"

definition addEquipmentDoc :: "bool \<Rightarrow> equipment_data \<Rightarrow> store \<Rightarrow> store" where
  "addEquipmentDoc awaited d r =
     (let i = autoId (map fst (equipmentDocs r))
      in logCall awaited True (AddDoc EquipmentCol i)
           (r\<lparr>equipmentDocs := equipmentDocs r @ [(i, d)]\<rparr>))"

definition updateEquipmentDoc ::
  "bool \<Rightarrow> doc_id \<Rightarrow> (equipment_data \<Rightarrow> equipment_data) \<Rightarrow> store \<Rightarrow> store_error option \<times> store" where
  "updateEquipmentDoc awaited i f r =
     (if i \<in> set (map fst (equipmentDocs r))
      then (None,
            logCall awaited True (UpdateDoc EquipmentCol i)
              (r\<lparr>equipmentDocs :=
                   map (\<lambda>d. if fst d = i then (fst d, f (snd d)) else d) (equipmentDocs r)\<rparr>))
      else (Some NotFound, logCall awaited False (UpdateDoc EquipmentCol i) r))"

text \<open>\<open>deleteDoc\<close> removes the document with that id; deleting an absent one succeeds.\<close>

definition deleteEquipmentDoc :: "bool \<Rightarrow> doc_id \<Rightarrow> store \<Rightarrow> store" where
  "deleteEquipmentDoc awaited i r =
     logCall awaited True (DeleteDoc EquipmentCol i)
       (r\<lparr>equipmentDocs := filter (\<lambda>d. fst d \<noteq> i) (equipmentDocs r)\<rparr>)"

text \<open>The text of a store error, as it appears in \<open>error.message\<close>.\<close>

definition errorMessage :: "store_error \<Rightarrow> string" where
  "errorMessage e = (case e of NotFound \<Rightarrow> ''not-found'' | InvalidTime \<Rightarrow> ''Invalid time value'')"

section \<open>Component state (App, lines 89-119)\<close>

datatype firestore = Firestore
datatype firebase_auth = FirebaseAuth

text \<open>\<open>firebaseConfig\<close>: each parameter is an environment variable, absent (\<open>None\<close>) or a
  string.\<close>

record firebase_config =
  apiKey :: "string option"
  authDomain :: "string option"
  projectId :: "string option"
  storageBucket :: "string option"
  messagingSenderId :: "string option"
  appId :: "string option"
  measurementId :: "string option"

text \<open>JavaScript's \<open>!x\<close> on a string that may be undefined or null.\<close>

definition falsy :: "string option \<Rightarrow> bool" where
  "falsy x = (case x of None \<Rightarrow> True | Some s \<Rightarrow> s = [])"

text \<open>
  The booking form holds a date field and a time select for the start, and the same for
  the end. A time select always has one of its options as value. A date field is empty
  (\<open>Blank\<close>) or holds a date: with the time it then denotes an instant of local time,
  and \<open>new Date\<close> on the text \<open>${date}T${time}\<close> either parses to that instant or
  gives an Invalid Date. The second happens for a year of more than four digits, which
  a date field accepts: \<open>Typed t False\<close>. For an empty date the text is \<open>T08:00\<close>,
  which does not parse either.
\<close>

datatype date_input = Blank | Typed timestamp bool

record booking_form =
  startInput :: date_input
  endInput :: date_input

text \<open>A JavaScript \<open>Date\<close>: an instant, or \<open>None\<close> for an Invalid Date.\<close>

fun newDate :: "date_input \<Rightarrow> timestamp option" where
  "newDate Blank = None"
| "newDate (Typed t parses) = (if parses then Some t else None)"

text \<open>\<open><\<close>, \<open>>\<close> and \<open>>=\<close> on two dates compare their time values, and are false
  when one of them is an Invalid Date (its time value is NaN).\<close>

definition dateLt :: "timestamp option \<Rightarrow> timestamp option \<Rightarrow> bool" where
  "dateLt a b = (case a of None \<Rightarrow> False | Some x \<Rightarrow> (case b of None \<Rightarrow> False | Some y \<Rightarrow> x < y))"

definition dateGt :: "timestamp option \<Rightarrow> timestamp option \<Rightarrow> bool" where
  "dateGt a b = (case a of None \<Rightarrow> False | Some x \<Rightarrow> (case b of None \<Rightarrow> False | Some y \<Rightarrow> x > y))"

definition dateGe :: "timestamp option \<Rightarrow> timestamp option \<Rightarrow> bool" where
  "dateGe a b = (case a of None \<Rightarrow> False | Some x \<Rightarrow> (case b of None \<Rightarrow> False | Some y \<Rightarrow> x \<ge> y))"

record app =
  db :: "firestore option"
  auth :: "firebase_auth option"
  st_userId :: "string option"
  st_userDisplayName :: string
  userPhotoURL :: string
  isAuthReady :: bool
  equipmentList :: "equipment list"
  myBookings :: "booking list"
  allPublicBookings :: "booking list"
  selectedEquipment :: "equipment option"
  bookingForm :: booking_form
  message :: string
  showBookingModal :: bool
  showCancelModal :: bool
  bookingToCancel :: "booking option"
  isAdmin :: bool
  showAdminPanel :: bool
  showAddEquipmentModal :: bool
  showEditEquipmentModal :: bool
  showDeleteEquipmentModal :: bool
  equipmentToEdit :: "equipment option"
  equipmentToDelete :: "equipment option"
  equipmentForm :: equipment_form
  showUserMenu :: bool
  consoleErrors :: "string list"

text \<open>The component's state together with the remote store it talks to, and what the
  browser shows when it refuses to submit a form: the id of the required input that is
  empty, on which it displays its message.\<close>

record world =
  ui :: app
  remote :: store
  fieldReport :: "string option"

datatype outcome = Returned | Rejected store_error

definition setMessage :: "string \<Rightarrow> world \<Rightarrow> world" where
  "setMessage m w = w\<lparr>ui := (ui w)\<lparr>message := m\<rparr>\<rparr>"

section \<open>Startup (lines 122-141)\<close>

definition initialApp :: app where
  "initialApp =
     \<lparr>db = None, auth = None, st_userId = None, st_userDisplayName = [], userPhotoURL = [],
      isAuthReady = False, equipmentList = [], myBookings = [], allPublicBookings = [],
      selectedEquipment = None,
      bookingForm = \<lparr>startInput = Blank, endInput = Blank\<rparr>,
      message = [], showBookingModal = False, showCancelModal = False, bookingToCancel = None,
      isAdmin = True, showAdminPanel = False, showAddEquipmentModal = False,
      showEditEquipmentModal = False, showDeleteEquipmentModal = False,
      equipmentToEdit = None, equipmentToDelete = None,
      equipmentForm = \<lparr>name = [], description = []\<rparr>,
      showUserMenu = False, consoleErrors = []\<rparr>"

text \<open>The first effect: without an API key it logs an error and sets \<open>isAuthReady\<close>;
  otherwise it creates the store and identity handles.\<close>

definition mount :: "firebase_config \<Rightarrow> store \<Rightarrow> world" where
  "mount cfg r =
     (if falsy (apiKey cfg)
      then \<lparr>ui = initialApp\<lparr>consoleErrors :=
                    [''Firebase configuration is incomplete. Please check your .env file or GitHub Secrets.''],
                  isAuthReady := True\<rparr>,
            remote = r, fieldReport = None\<rparr>
      else \<lparr>ui = initialApp\<lparr>db := Some Firestore, auth := Some FirebaseAuth\<rparr>, remote = r,
            fieldReport = None\<rparr>)"

section \<open>Booking operations (lines 189-243)\<close>

definition handleBookingFormChange :: "booking_form \<Rightarrow> world \<Rightarrow> world" where
  "handleBookingFormChange f w = w\<lparr>ui := (ui w)\<lparr>bookingForm := f\<rparr>\<rparr>"

text \<open>\<open>openBookingModal\<close> presets the form to the current date in UTC (the date
  part of \<open>toISOString\<close>), 08:00 to 08:30; \<open>at0800\<close> and \<open>at0830\<close> are the instants
  those two texts denote in local time. The date has four digits of year, so both
  parse.\<close>

definition openBookingModal :: "equipment \<Rightarrow> timestamp \<Rightarrow> timestamp \<Rightarrow> world \<Rightarrow> world" where
  "openBookingModal eq at0800 at0830 w =
     w\<lparr>ui := (ui w)\<lparr>selectedEquipment := Some eq,
                     bookingForm := \<lparr>startInput = Typed at0800 True,
                                     endInput = Typed at0830 True\<rparr>,
                     showBookingModal := True\<rparr>\<rparr>"

definition closeBookingModal :: "world \<Rightarrow> world" where
  "closeBookingModal w = w\<lparr>ui := (ui w)\<lparr>showBookingModal := False, message := []\<rparr>\<rparr>"

definition openCancelModal :: "booking \<Rightarrow> world \<Rightarrow> world" where
  "openCancelModal b w = w\<lparr>ui := (ui w)\<lparr>bookingToCancel := Some b, showCancelModal := True\<rparr>\<rparr>"

definition closeCancelModal :: "world \<Rightarrow> world" where
  "closeCancelModal w = w\<lparr>ui := (ui w)\<lparr>showCancelModal := False, message := []\<rparr>\<rparr>"

text \<open>The overlap test of line 217, on the candidate's two dates and a stored booking.\<close>

definition overlaps :: "timestamp option \<Rightarrow> timestamp option \<Rightarrow> booking_data \<Rightarrow> bool" where
  "overlaps startDateTime endDateTime d =
     (dateLt startDateTime (Some (endDate d)) \<and> dateGt endDateTime (Some (startDate d)))"

text \<open>
  \<open>submitBooking\<close>. \<open>now\<close> is the clock read by \<open>new Date()\<close> (line 209) and \<open>stamp\<close> the
  later one read by \<open>Timestamp.now()\<close> (line 229). The three store calls are awaited.
  When a date that did not parse gets as far as the writes, the first \<open>addDoc\<close> raises
  and the function rejects, after the query and before any create.
\<close>

definition submitBooking :: "timestamp \<Rightarrow> timestamp \<Rightarrow> world \<Rightarrow> outcome \<times> world" where
  "submitBooking now stamp w =
     (case selectedEquipment (ui w) of None \<Rightarrow> (Returned, w) | Some eq \<Rightarrow>
      (case db (ui w) of None \<Rightarrow> (Returned, w) | Some _ \<Rightarrow>
       (case st_userId (ui w) of None \<Rightarrow> (Returned, w) | Some uid \<Rightarrow>
        if uid = [] then (Returned, w)
        else
          let startDateTime = newDate (startInput (bookingForm (ui w)));
              endDateTime = newDate (endInput (bookingForm (ui w)))
          in if dateGe startDateTime endDateTime
             then (Returned, setMessage ''End time must be after start time.'' w)
             else if dateLt startDateTime (Some now)
             then (Returned, setMessage ''Booking start time cannot be in the past.'' w)
             else
               let (snapshot, r1) =
                     getBookingDocs PublicBookings
                       (\<lambda>d. equipmentId d = fst eq \<and> status d = booked) (remote w);
                   isBooked = list_ex (\<lambda>d. overlaps startDateTime endDateTime (snd d)) snapshot
               in if isBooked
                  then (Returned,
                        setMessage ''This equipment is already booked for this time slot.''
                          (w\<lparr>remote := r1\<rparr>))
                  else
                    (case startDateTime of None \<Rightarrow> (Rejected InvalidTime, w\<lparr>remote := r1\<rparr>)
                     | Some s \<Rightarrow>
                    (case endDateTime of None \<Rightarrow> (Rejected InvalidTime, w\<lparr>remote := r1\<rparr>)
                     | Some e \<Rightarrow>
                       let bookingData =
                             \<lparr>equipmentId = fst eq, equipmentName = name (snd eq), userId = uid,
                              userDisplayName = st_userDisplayName (ui w),
                              startDate = s, endDate = e, status = booked,
                              bookedAt = stamp, cancelledAt = None\<rparr>;
                           r2 = addBookingDoc True (UserBookings uid) bookingData r1;
                           r3 = addBookingDoc True PublicBookings bookingData r2
                       in (Returned, closeBookingModal (w\<lparr>remote := r3\<rparr>)))))))"

definition markCancelled :: "timestamp \<Rightarrow> booking_data \<Rightarrow> booking_data" where
  "markCancelled t d = d\<lparr>status := cancelled, cancelledAt := Some t\<rparr>"

text \<open>\<open>snapshot.forEach(d => updateDoc(d.ref, ...))\<close>: one update per matching public
  document, none of them awaited; \<open>clk k\<close> is the clock at the \<open>k\<close>-th \<open>Timestamp.now()\<close>
  of the call.\<close>

fun cancelMatches :: "(nat \<Rightarrow> timestamp) \<Rightarrow> nat \<Rightarrow> doc_id list \<Rightarrow> store \<Rightarrow> store" where
  "cancelMatches clk k [] r = r"
| "cancelMatches clk k (i # ids) r =
     cancelMatches clk (Suc k) ids
       (snd (updateBookingDoc False PublicBookings i (markCancelled (clk k)) r))"

text \<open>\<open>cancelBooking\<close>: the public copies are found by the query on
  \<open>(equipmentId, userId, bookedAt)\<close>, with the signed-in user's id; the private copy is
  updated by id, awaited, so a failure of that update rejects the call before
  \<open>closeCancelModal\<close>.\<close>

definition cancelBooking :: "(nat \<Rightarrow> timestamp) \<Rightarrow> world \<Rightarrow> outcome \<times> world" where
  "cancelBooking clk w =
     (case bookingToCancel (ui w) of None \<Rightarrow> (Returned, w) | Some b \<Rightarrow>
      (case db (ui w) of None \<Rightarrow> (Returned, w) | Some _ \<Rightarrow>
       (case st_userId (ui w) of None \<Rightarrow> (Returned, w) | Some uid \<Rightarrow>
        if uid = [] then (Returned, w)
        else
          let (snapshot, r1) =
                getBookingDocs PublicBookings
                  (\<lambda>d. equipmentId d = equipmentId (snd b) \<and> userId d = uid
                        \<and> bookedAt d = bookedAt (snd b)) (remote w);
              r2 = cancelMatches clk 0 (map fst snapshot) r1;
              (err, r3) =
                updateBookingDoc True (UserBookings uid) (fst b)
                  (markCancelled (clk (length snapshot))) r2
          in (case err of
                Some e \<Rightarrow> (Rejected e, w\<lparr>remote := r3\<rparr>)
              | None \<Rightarrow> (Returned, closeCancelModal (w\<lparr>remote := r3\<rparr>))))))"

section \<open>Equipment operations (lines 245-283)\<close>

definition handleEquipmentFormChange :: "equipment_form \<Rightarrow> world \<Rightarrow> world" where
  "handleEquipmentFormChange f w = w\<lparr>ui := (ui w)\<lparr>equipmentForm := f\<rparr>\<rparr>"

definition openAddEquipmentModal :: "world \<Rightarrow> world" where
  "openAddEquipmentModal w =
     w\<lparr>ui := (ui w)\<lparr>equipmentForm := \<lparr>name = [], description = []\<rparr>,
                     showAddEquipmentModal := True\<rparr>\<rparr>"

text \<open>The Cancel button of the add dialog (line 467).\<close>

definition closeAddEquipmentModal :: "world \<Rightarrow> world" where
  "closeAddEquipmentModal w = w\<lparr>ui := (ui w)\<lparr>showAddEquipmentModal := False, message := []\<rparr>\<rparr>"

definition addEquipment :: "timestamp \<Rightarrow> world \<Rightarrow> world" where
  "addEquipment stamp w =
     (if db (ui w) = None \<or> \<not> isAdmin (ui w) \<or> name (equipmentForm (ui w)) = []
         \<or> description (equipmentForm (ui w)) = []
      then setMessage ''Please fill out all fields.'' w
      else
        let r1 = addEquipmentDoc True
                   \<lparr>name = name (equipmentForm (ui w)),
                    description = description (equipmentForm (ui w)),
                    createdAt = Some stamp, updatedAt = None\<rparr> (remote w)
        in w\<lparr>ui := (ui w)\<lparr>showAddEquipmentModal := False, message := []\<rparr>, remote := r1\<rparr>)"

definition openEditEquipmentModal :: "equipment \<Rightarrow> world \<Rightarrow> world" where
  "openEditEquipmentModal eq w =
     w\<lparr>ui := (ui w)\<lparr>equipmentToEdit := Some eq,
                     equipmentForm := \<lparr>name = name (snd eq), description = description (snd eq)\<rparr>,
                     showEditEquipmentModal := True\<rparr>\<rparr>"

definition closeEditEquipmentModal :: "world \<Rightarrow> world" where
  "closeEditEquipmentModal w =
     w\<lparr>ui := (ui w)\<lparr>showEditEquipmentModal := False, equipmentToEdit := None, message := []\<rparr>\<rparr>"

definition updateEquipment :: "timestamp \<Rightarrow> world \<Rightarrow> world" where
  "updateEquipment stamp w =
     (case equipmentToEdit (ui w) of None \<Rightarrow> w | Some eq \<Rightarrow>
      if db (ui w) = None \<or> \<not> isAdmin (ui w) then w
      else
        let (err, r1) =
              updateEquipmentDoc True (fst eq)
                (\<lambda>d. d\<lparr>name := name (equipmentForm (ui w)),
                        description := description (equipmentForm (ui w)),
                        updatedAt := Some stamp\<rparr>) (remote w)
        in (case err of
              None \<Rightarrow> closeEditEquipmentModal (w\<lparr>remote := r1\<rparr>)
            | Some e \<Rightarrow>
                setMessage (''Failed to update equipment. Error: '' @ errorMessage e)
                  (w\<lparr>remote := r1\<rparr>)))"

definition openDeleteEquipmentModal :: "equipment \<Rightarrow> world \<Rightarrow> world" where
  "openDeleteEquipmentModal eq w =
     w\<lparr>ui := (ui w)\<lparr>equipmentToDelete := Some eq, showDeleteEquipmentModal := True\<rparr>\<rparr>"

definition closeDeleteEquipmentModal :: "world \<Rightarrow> world" where
  "closeDeleteEquipmentModal w =
     w\<lparr>ui := (ui w)\<lparr>showDeleteEquipmentModal := False, equipmentToDelete := None,
                     message := []\<rparr>\<rparr>"

definition deleteEquipment :: "world \<Rightarrow> world" where
  "deleteEquipment w =
     (case equipmentToDelete (ui w) of None \<Rightarrow> w | Some eq \<Rightarrow>
      if db (ui w) = None \<or> \<not> isAdmin (ui w) then w
      else closeDeleteEquipmentModal (w\<lparr>remote := deleteEquipmentDoc True (fst eq) (remote w)\<rparr>))"

section \<open>Events\<close>

text \<open>What \<open>onAuthStateChanged\<close> passes to its callback for a signed-in user.\<close>

record auth_user =
  uid :: string
  displayName :: "string option"
  photoURL :: "string option"

text \<open>The callback of lines 134-139, followed by the effect of lines 180-186 that empties
  \<open>myBookings\<close> when there is no store, user or application id. The listener is only
  registered when the startup effect created the identity handle.\<close>

definition onAuthStateChanged :: "firebase_config \<Rightarrow> auth_user option \<Rightarrow> world \<Rightarrow> world" where
  "onAuthStateChanged cfg user w =
     (case auth (ui w) of None \<Rightarrow> w | Some _ \<Rightarrow>
      let a = (ui w)\<lparr>st_userId := map_option uid user,
                     st_userDisplayName :=
                       (case user of None \<Rightarrow> []
                        | Some u \<Rightarrow> if falsy (displayName u) then ''User''
                                    else (case displayName u of Some n \<Rightarrow> n | None \<Rightarrow> [])),
                     userPhotoURL :=
                       (case user of None \<Rightarrow> []
                        | Some u \<Rightarrow> (case photoURL u of Some p \<Rightarrow> p | None \<Rightarrow> [])),
                     isAuthReady := True\<rparr>
      in w\<lparr>ui := (if db a = None \<or> falsy (st_userId a) \<or> falsy (appId cfg)
                   then a\<lparr>myBookings := []\<rparr> else a)\<rparr>)"

text \<open>The three snapshot listeners (lines 169-186): each delivery replaces a view by the
  collection's current documents; the user's bookings are sorted by start.\<close>

definition equipmentSnapshot :: "firebase_config \<Rightarrow> world \<Rightarrow> world" where
  "equipmentSnapshot cfg w =
     (if db (ui w) = None \<or> falsy (appId cfg) then w
      else w\<lparr>ui := (ui w)\<lparr>equipmentList := equipmentDocs (remote w)\<rparr>\<rparr>)"

definition publicBookingsSnapshot :: "firebase_config \<Rightarrow> world \<Rightarrow> world" where
  "publicBookingsSnapshot cfg w =
     (if db (ui w) = None \<or> falsy (appId cfg) then w
      else w\<lparr>ui := (ui w)\<lparr>allPublicBookings := publicBookings (remote w)\<rparr>\<rparr>)"

definition myBookingsSnapshot :: "firebase_config \<Rightarrow> world \<Rightarrow> world" where
  "myBookingsSnapshot cfg w =
     (case st_userId (ui w) of None \<Rightarrow> w | Some u \<Rightarrow>
      if db (ui w) = None \<or> u = [] \<or> falsy (appId cfg) then w
      else w\<lparr>ui := (ui w)\<lparr>myBookings :=
                 sort_key (\<lambda>b. startDate (snd b)) (userBookings (remote w) u)\<rparr>\<rparr>)"

text \<open>The keyboard shortcut (lines 143-157) and the user menu.\<close>

definition adminShortcut :: "world \<Rightarrow> world" where
  "adminShortcut w =
     (if isAdmin (ui w) then w\<lparr>ui := (ui w)\<lparr>showAdminPanel := \<not> showAdminPanel (ui w)\<rparr>\<rparr> else w)"

definition toggleUserMenu :: "world \<Rightarrow> world" where
  "toggleUserMenu w = w\<lparr>ui := (ui w)\<lparr>showUserMenu := \<not> showUserMenu (ui w)\<rparr>\<rparr>"

definition clickOutsideUserMenu :: "world \<Rightarrow> world" where
  "clickOutsideUserMenu w = w\<lparr>ui := (ui w)\<lparr>showUserMenu := False\<rparr>\<rparr>"

text \<open>
  The three forms (lines 434, 467 and 469). Their text and date inputs are \<open>required\<close>
  and the forms do not set \<open>noValidate\<close>, so the browser runs \<open>onSubmit\<close> only when
  none of those inputs is empty; otherwise it reports the first empty one and the
  handler does not run.
\<close>

definition bookingFormSubmit :: "timestamp \<Rightarrow> timestamp \<Rightarrow> world \<Rightarrow> world" where
  "bookingFormSubmit now stamp w =
     (if startInput (bookingForm (ui w)) = Blank then w\<lparr>fieldReport := Some ''startDate''\<rparr>
      else if endInput (bookingForm (ui w)) = Blank then w\<lparr>fieldReport := Some ''endDate''\<rparr>
      else snd (submitBooking now stamp w))"

definition addEquipmentFormSubmit :: "timestamp \<Rightarrow> world \<Rightarrow> world" where
  "addEquipmentFormSubmit stamp w =
     (if name (equipmentForm (ui w)) = [] then w\<lparr>fieldReport := Some ''newName''\<rparr>
      else if description (equipmentForm (ui w)) = []
      then w\<lparr>fieldReport := Some ''newDescription''\<rparr>
      else addEquipment stamp w)"

definition editEquipmentFormSubmit :: "timestamp \<Rightarrow> world \<Rightarrow> world" where
  "editEquipmentFormSubmit stamp w =
     (if name (equipmentForm (ui w)) = [] then w\<lparr>fieldReport := Some ''editName''\<rparr>
      else if description (equipmentForm (ui w)) = []
      then w\<lparr>fieldReport := Some ''editDescription''\<rparr>
      else updateEquipment stamp w)"

text \<open>What the user and the environment do. \<open>SubmitBooking\<close>, \<open>AddEquipment\<close> and
  \<open>UpdateEquipment\<close> are the submissions of the three forms; the others call their
  handler directly.\<close>

datatype event =
    AuthStateChanged "auth_user option"
  | EquipmentSnapshot
  | PublicBookingsSnapshot
  | MyBookingsSnapshot
  | AdminShortcut
  | ToggleUserMenu
  | ClickOutsideUserMenu
  | HandleBookingFormChange booking_form
  | OpenBookingModal equipment timestamp timestamp
  | CloseBookingModal
  | OpenCancelModal booking
  | CloseCancelModal
  | SubmitBooking timestamp timestamp
  | CancelBooking "nat \<Rightarrow> timestamp"
  | HandleEquipmentFormChange equipment_form
  | OpenAddEquipmentModal
  | CloseAddEquipmentModal
  | AddEquipment timestamp
  | OpenEditEquipmentModal equipment
  | CloseEditEquipmentModal
  | UpdateEquipment timestamp
  | OpenDeleteEquipmentModal equipment
  | CloseDeleteEquipmentModal
  | DeleteEquipment

fun handle :: "firebase_config \<Rightarrow> event \<Rightarrow> world \<Rightarrow> world" where
  "handle cfg (AuthStateChanged user) w = onAuthStateChanged cfg user w"
| "handle cfg EquipmentSnapshot w = equipmentSnapshot cfg w"
| "handle cfg PublicBookingsSnapshot w = publicBookingsSnapshot cfg w"
| "handle cfg MyBookingsSnapshot w = myBookingsSnapshot cfg w"
| "handle cfg AdminShortcut w = adminShortcut w"
| "handle cfg ToggleUserMenu w = toggleUserMenu w"
| "handle cfg ClickOutsideUserMenu w = clickOutsideUserMenu w"
| "handle cfg (HandleBookingFormChange f) w = handleBookingFormChange f w"
| "handle cfg (OpenBookingModal eq at0800 at0830) w = openBookingModal eq at0800 at0830 w"
| "handle cfg CloseBookingModal w = closeBookingModal w"
| "handle cfg (OpenCancelModal b) w = openCancelModal b w"
| "handle cfg CloseCancelModal w = closeCancelModal w"
| "handle cfg (SubmitBooking now stamp) w = bookingFormSubmit now stamp w"
| "handle cfg (CancelBooking clk) w = snd (cancelBooking clk w)"
| "handle cfg (HandleEquipmentFormChange f) w = handleEquipmentFormChange f w"
| "handle cfg OpenAddEquipmentModal w = openAddEquipmentModal w"
| "handle cfg CloseAddEquipmentModal w = closeAddEquipmentModal w"
| "handle cfg (AddEquipment stamp) w = addEquipmentFormSubmit stamp w"
| "handle cfg (OpenEditEquipmentModal eq) w = openEditEquipmentModal eq w"
| "handle cfg CloseEditEquipmentModal w = closeEditEquipmentModal w"
| "handle cfg (UpdateEquipment stamp) w = editEquipmentFormSubmit stamp w"
| "handle cfg (OpenDeleteEquipmentModal eq) w = openDeleteEquipmentModal eq w"
| "handle cfg CloseDeleteEquipmentModal w = closeDeleteEquipmentModal w"
| "handle cfg DeleteEquipment w = deleteEquipment w"

text \<open>An event: the browser's report of the previous refused submission, if any, goes
  away, and the event is handled.\<close>

definition fire :: "firebase_config \<Rightarrow> event \<Rightarrow> world \<Rightarrow> world" where
  "fire cfg e w = handle cfg e (w\<lparr>fieldReport := None\<rparr>)"

text \<open>A sequence of events of this client, each finishing before the next starts.\<close>

fun run :: "firebase_config \<Rightarrow> event list \<Rightarrow> world \<Rightarrow> world" where
  "run cfg [] w = w"
| "run cfg (e # es) w = run cfg es (fire cfg e w)"

text \<open>The states the application can be in: it starts mounted on a store \<open>r\<close>, handles
  events, and other clients may rewrite the shared documents in between.\<close>

inductive reachable :: "firebase_config \<Rightarrow> store \<Rightarrow> world \<Rightarrow> bool" for cfg r where
  start: "reachable cfg r (mount cfg r)"
| step: "reachable cfg r w \<Longrightarrow> reachable cfg r (fire cfg e w)"
| external:
    "reachable cfg r w \<Longrightarrow>
     reachable cfg r
       (w\<lparr>remote := (remote w)\<lparr>equipmentDocs := es, publicBookings := ps, userBookings := us\<rparr>\<rparr>)"

section \<open>Properties of stored bookings\<close>

text \<open>No two distinct booked documents of a collection, for the equipment \<open>eq\<close>, overlap
  as half-open intervals.\<close>

definition noOverlap :: "doc_id \<Rightarrow> booking list \<Rightarrow> bool" where
  "noOverlap eq ds =
     (\<forall>a\<in>set ds. \<forall>b\<in>set ds.
        a \<noteq> b \<and> equipmentId (snd a) = eq \<and> equipmentId (snd b) = eq
          \<and> status (snd a) = booked \<and> status (snd b) = booked
        \<longrightarrow> \<not> (startDate (snd a) < endDate (snd b) \<and> endDate (snd a) > startDate (snd b)))"

text \<open>A document reads back as cancelled.\<close>

definition readsCancelled :: "booking_data \<Rightarrow> bool" where
  "readsCancelled d = (status d = cancelled \<and> cancelledAt d \<noteq> None)"

text \<open>The correlation key of the two copies of a booking.\<close>

definition correlationKey :: "booking_data \<Rightarrow> doc_id \<times> string \<times> timestamp" where
  "correlationKey d = (equipmentId d, userId d, bookedAt d)"

text \<open>The status of every document of a collection, by id.\<close>

definition statuses :: "booking list \<Rightarrow> (doc_id \<times> booking_status) list" where
  "statuses ds = map (\<lambda>d. (fst d, status (snd d))) ds"

text \<open>From \<open>old\<close> to \<open>new\<close>, every document is still there, in place, and none that was
  cancelled is booked again.\<close>

definition staysCancelled :: "booking list \<Rightarrow> booking list \<Rightarrow> bool" where
  "staysCancelled old new =
     (length old \<le> length new \<and>
      list_all2 (\<lambda>d d'. fst d' = fst d \<and> (status (snd d) = cancelled \<longrightarrow> status (snd d') = cancelled))
        old (take (length old) new))"

text \<open>One document is another one, or that one marked cancelled: the only change
  \<open>cancelBooking\<close> makes to a stored booking.\<close>

definition markedFrom :: "booking \<Rightarrow> booking \<Rightarrow> bool" where
  "markedFrom d d' = (fst d' = fst d \<and> (d' = d \<or> (\<exists>t. snd d' = markCancelled t (snd d))))"

text \<open>What the application is left with when it starts without an API key: the error on
  the console, no store or identity handle, no user, \<open>isAuthReady\<close> set, and no call
  to the store since the start (the store then was \<open>r\<close>).\<close>

definition notConfigured :: "store \<Rightarrow> world \<Rightarrow> bool" where
  "notConfigured r w =
     (consoleErrors (ui w) =
        [''Firebase configuration is incomplete. Please check your .env file or GitHub Secrets.'']
      \<and> db (ui w) = None \<and> auth (ui w) = None \<and> st_userId (ui w) = None
      \<and> isAuthReady (ui w) \<and> oplog (remote w) = oplog r)"

section \<open>Example data\<close>

definition exampleConfig :: firebase_config where
  "exampleConfig =
     \<lparr>apiKey = Some ''key'', authDomain = Some ''lab.example.org'', projectId = Some ''lab'',
      storageBucket = Some ''lab.bucket'', messagingSenderId = Some ''42'',
      appId = Some ''app'', measurementId = Some ''G-1''\<rparr>"

definition microscope :: equipment where
  "microscope =
     (''eq1'', \<lparr>name = ''Microscope'', description = ''Optical microscope'',
               createdAt = Some 0, updatedAt = None\<rparr>)"

definition alice :: auth_user where
  "alice = \<lparr>uid = ''alice'', displayName = Some ''Alice'', photoURL = None\<rparr>"

text \<open>Bob's booking of the microscope from 07:30 to 08:00 on day 0, in both collections.\<close>

definition bobsBooking :: booking_data where
  "bobsBooking =
     \<lparr>equipmentId = ''eq1'', equipmentName = ''Microscope'', userId = ''bob'',
      userDisplayName = ''Bob'', startDate = 27000000, endDate = 28800000,
      status = booked, bookedAt = 500, cancelledAt = None\<rparr>"

definition exampleStore :: store where
  "exampleStore =
     \<lparr>equipmentDocs = [microscope],
      publicBookings = [(''p1'', bobsBooking)],
      userBookings = (\<lambda>u. if u = ''bob'' then [(''b1'', bobsBooking)] else []),
      oplog = []\<rparr>"

text \<open>Alice has signed in and opened the booking dialog for the microscope: the form
  reads 08:00 to 08:30 on day 0.\<close>

definition aliceBooking :: world where
  "aliceBooking =
     run exampleConfig
       [AuthStateChanged (Some alice), OpenBookingModal microscope 28800000 30600000]
       (mount exampleConfig exampleStore)"

text \<open>Alice's booking as \<open>submitBooking\<close> stores it at 08:00 to 08:30, and the
  state after she submitted it and asked to cancel it.\<close>

definition alicesBooking :: booking_data where
  "alicesBooking =
     \<lparr>equipmentId = ''eq1'', equipmentName = ''Microscope'', userId = ''alice'',
      userDisplayName = ''Alice'', startDate = 28800000, endDate = 30600000,
      status = booked, bookedAt = 2000, cancelledAt = None\<rparr>"

definition aliceCancelling :: world where
  "aliceCancelling =
     openCancelModal (''0'', alicesBooking) (snd (submitBooking 1000 2000 aliceBooking))"

text \<open>A configuration without a project identifier, and one without an API key.\<close>

definition noProjectConfig :: firebase_config where
  "noProjectConfig = exampleConfig\<lparr>projectId := None\<rparr>"

definition noKeyConfig :: firebase_config where
  "noKeyConfig = exampleConfig\<lparr>apiKey := None\<rparr>"

text \<open>The edit dialog is open on the microscope and the name field has been emptied.\<close>

definition editingMicroscope :: world where
  "editingMicroscope =
     run exampleConfig
       [OpenEditEquipmentModal microscope,
        HandleEquipmentFormChange \<lparr>name = [], description = ''Optical microscope''\<rparr>]
       (mount exampleConfig exampleStore)"

text \<open>Alice is in the state above, and the session ends: the equipment stays selected and
  the booking to cancel stays chosen, but no user is signed in.\<close>

definition aliceSignedOut :: world where
  "aliceSignedOut = fire exampleConfig (AuthStateChanged None) aliceCancelling"




section \<open>Auxiliary facts\<close>




lemmas example_defs = exampleConfig_def microscope_def alice_def bobsBooking_def exampleStore_def
  aliceBooking_def mount_def initialApp_def falsy_def onAuthStateChanged_def openBookingModal_def
  fire_def

lemma aliceBooking_state:
  "selectedEquipment (ui aliceBooking) = Some microscope"
  "db (ui aliceBooking) = Some Firestore"
  "st_userId (ui aliceBooking) = Some ''alice''"
  "startInput (bookingForm (ui aliceBooking)) = Typed 28800000 True"
  "endInput (bookingForm (ui aliceBooking)) = Typed 30600000 True"
  "remote aliceBooking = exampleStore"
  "st_userDisplayName (ui aliceBooking) = ''Alice''"
  "message (ui aliceBooking) = []"
  by (simp_all add: example_defs Let_def)

lemma aliceCancelling_state:
  "bookingToCancel (ui aliceCancelling) = Some (''0'', alicesBooking)"
  "db (ui aliceCancelling) = Some Firestore"
  "st_userId (ui aliceCancelling) = Some ''alice''"
  "publicBookings (remote aliceCancelling) = [(''p1'', bobsBooking), (''000'', alicesBooking)]"
  "userBookings (remote aliceCancelling) ''alice'' = [(''0'', alicesBooking)]"
  by (simp_all add: aliceCancelling_def alicesBooking_def openCancelModal_def submitBooking_def
      aliceBooking_state closeBookingModal_def getBookingDocs_def addBookingDoc_def logCall_def
      overlaps_def dateLt_def dateGt_def dateGe_def autoId_def exampleStore_def bobsBooking_def
      microscope_def Let_def)

subsection \<open>Operations by name\<close>

lemmas simple_ops =
  onAuthStateChanged_def equipmentSnapshot_def publicBookingsSnapshot_def myBookingsSnapshot_def
  adminShortcut_def toggleUserMenu_def clickOutsideUserMenu_def handleBookingFormChange_def
  openBookingModal_def closeBookingModal_def openCancelModal_def closeCancelModal_def
  handleEquipmentFormChange_def openAddEquipmentModal_def closeAddEquipmentModal_def
  openEditEquipmentModal_def closeEditEquipmentModal_def openDeleteEquipmentModal_def
  closeDeleteEquipmentModal_def setMessage_def

lemmas equipment_ops =
  addEquipment_def updateEquipment_def deleteEquipment_def addEquipmentDoc_def
  updateEquipmentDoc_def deleteEquipmentDoc_def logCall_def addEquipmentFormSubmit_def
  editEquipmentFormSubmit_def

lemma logCall_docs:
  "publicBookings (logCall aw ok op r) = publicBookings r"
  "userBookings (logCall aw ok op r) = userBookings r"
  "equipmentDocs (logCall aw ok op r) = equipmentDocs r"
  by (simp_all add: logCall_def)

lemma logCall_bookingDocs: "bookingDocs p (logCall aw ok op r) = bookingDocs p r"
  by (cases p) (simp_all add: logCall_def)

subsection \<open>Documents marked cancelled\<close>

lemma markedFrom_refl: "markedFrom d d"
  by (simp add: markedFrom_def)

lemma markedFrom_trans: "markedFrom a b \<Longrightarrow> markedFrom b c \<Longrightarrow> markedFrom a c"
  by (auto simp: markedFrom_def markCancelled_def)

lemma markedFrom_key: "markedFrom d d' \<Longrightarrow> correlationKey (snd d') = correlationKey (snd d)"
  by (auto simp: markedFrom_def markCancelled_def correlationKey_def)

lemma markedFrom_readsCancelled:
  "markedFrom d d' \<Longrightarrow> readsCancelled (snd d) \<Longrightarrow> readsCancelled (snd d')"
  by (auto simp: markedFrom_def markCancelled_def readsCancelled_def)

lemma markedFrom_status:
  "markedFrom d d' \<Longrightarrow> status (snd d) = cancelled \<Longrightarrow> status (snd d') = cancelled"
  by (auto simp: markedFrom_def markCancelled_def)

lemma markedFrom_booked: "markedFrom d d' \<Longrightarrow> status (snd d') = booked \<Longrightarrow> d' = d"
  by (auto simp: markedFrom_def markCancelled_def)

lemma list_all2_set2: "list_all2 P xs ys \<Longrightarrow> y \<in> set ys \<Longrightarrow> \<exists>x\<in>set xs. P x y"
  by (induction rule: list_all2_induct) auto

lemma list_all2_markedFrom_trans:
  "list_all2 markedFrom xs ys \<Longrightarrow> list_all2 markedFrom ys zs \<Longrightarrow> list_all2 markedFrom xs zs"
  using list_all2_trans[of markedFrom markedFrom markedFrom] markedFrom_trans by blast

lemma updated_doc_image:
  "(i, y) \<in> set (map (\<lambda>d. if fst d = i then (fst d, f (snd d)) else d) ds)
     \<Longrightarrow> \<exists>b. y = f b"
  by (induction ds) (auto split: if_splits)

lemma update_keeps_ids:
  "map fst (map (\<lambda>d. if fst d = i then (fst d, f (snd d)) else d) xs) = map fst xs"
  by (induction xs) auto

lemma update_public_docs:
  "publicBookings (snd (updateBookingDoc aw PublicBookings i f r))
     = map (\<lambda>d. if fst d = i then (fst d, f (snd d)) else d) (publicBookings r)"
proof (cases "i \<in> fst ` set (publicBookings r)")
  case True
  then show ?thesis by (simp add: updateBookingDoc_def logCall_def)
next
  case False
  then have "map (\<lambda>d. if fst d = i then (fst d, f (snd d)) else d) (publicBookings r)
               = publicBookings r"
    by (intro map_idI) auto
  with False show ?thesis by (simp add: updateBookingDoc_def logCall_def)
qed

lemma update_public_others:
  "userBookings (snd (updateBookingDoc aw PublicBookings i f r)) = userBookings r"
  "equipmentDocs (snd (updateBookingDoc aw PublicBookings i f r)) = equipmentDocs r"
  by (simp_all add: updateBookingDoc_def logCall_def)

lemma update_markedFrom:
  "list_all2 markedFrom (bookingDocs p' r)
     (bookingDocs p' (snd (updateBookingDoc aw p i (markCancelled t) r)))"
  by (cases p; cases p')
     (auto simp: updateBookingDoc_def logCall_def list_all2_map2 list_all2_same markedFrom_def)

subsection \<open>Cancelling the matching public documents\<close>

lemma cancelMatches_others:
  "userBookings (cancelMatches clk k ids r) = userBookings r"
  "equipmentDocs (cancelMatches clk k ids r) = equipmentDocs r"
  by (induction ids arbitrary: k r) (simp_all add: update_public_others)

lemma cancelMatches_markedFrom:
  "list_all2 markedFrom (publicBookings r) (publicBookings (cancelMatches clk k ids r))"
proof (induction ids arbitrary: k r)
  case Nil
  show ?case by (simp add: list_all2_same markedFrom_refl)
next
  case (Cons i ids)
  let ?r1 = "snd (updateBookingDoc False PublicBookings i (markCancelled (clk k)) r)"
  have "list_all2 markedFrom (publicBookings r) (publicBookings ?r1)"
    by (auto simp: update_public_docs list_all2_map2 list_all2_same markedFrom_def)
  moreover have "list_all2 markedFrom (publicBookings ?r1)
                   (publicBookings (cancelMatches clk (Suc k) ids ?r1))"
    by (rule Cons.IH)
  ultimately show ?case
    using list_all2_trans[of markedFrom markedFrom markedFrom] markedFrom_trans
    by (metis cancelMatches.simps(2))
qed

lemma cancelMatches_markedFrom_any:
  "list_all2 markedFrom (bookingDocs p r) (bookingDocs p (cancelMatches clk k ids r))"
  by (cases p)
     (simp_all add: cancelMatches_markedFrom cancelMatches_others list_all2_same markedFrom_refl)

lemma cancelMatches_cancels:
  "d' \<in> set (publicBookings (cancelMatches clk k ids r)) \<Longrightarrow> fst d' \<in> set ids
     \<Longrightarrow> readsCancelled (snd d')"
proof (induction ids arbitrary: k r)
  case Nil
  then show ?case by simp
next
  case (Cons i ids)
  let ?r1 = "snd (updateBookingDoc False PublicBookings i (markCancelled (clk k)) r)"
  from Cons.prems(1) have in': "d' \<in> set (publicBookings (cancelMatches clk (Suc k) ids ?r1))"
    by simp
  show ?case
  proof (cases "fst d' \<in> set ids")
    case True
    with in' show ?thesis by (rule Cons.IH)
  next
    case False
    with Cons.prems(2) have i: "fst d' = i" by simp
    from list_all2_set2[OF cancelMatches_markedFrom in']
    obtain d1 where d1: "d1 \<in> set (publicBookings ?r1)" "markedFrom d1 d'" by blast
    from d1(2) i have "fst d1 = i" by (simp add: markedFrom_def)
    with d1(1) have "(i, snd d1) \<in> set (publicBookings ?r1)"
      by (metis prod.collapse)
    then obtain b where "snd d1 = markCancelled (clk k) b"
      unfolding update_public_docs by (blast dest: updated_doc_image)
    then have "readsCancelled (snd d1)"
      by (simp add: readsCancelled_def markCancelled_def)
    with d1(2) show ?thesis by (rule markedFrom_readsCancelled)
  qed
qed

lemma cancelMatches_statuses:
  "\<forall>d\<in>set (publicBookings r). fst d \<in> set ids \<longrightarrow> status (snd d) = cancelled \<Longrightarrow>
   statuses (publicBookings (cancelMatches clk k ids r)) = statuses (publicBookings r)"
proof (induction ids arbitrary: k r)
  case Nil
  show ?case by simp
next
  case (Cons i ids)
  let ?r1 = "snd (updateBookingDoc False PublicBookings i (markCancelled (clk k)) r)"
  have s1: "statuses (publicBookings ?r1) = statuses (publicBookings r)"
    using Cons.prems by (auto simp: statuses_def update_public_docs markCancelled_def)
  have "\<forall>d\<in>set (publicBookings ?r1). fst d \<in> set ids \<longrightarrow> status (snd d) = cancelled"
    using Cons.prems by (auto simp: update_public_docs markCancelled_def)
  from Cons.IH[OF this] s1 show ?case by simp
qed

subsection \<open>The effect of \<open>cancelBooking\<close>\<close>

lemma cancelBooking_effect:
  assumes "bookingToCancel (ui w) = Some b" and "db (ui w) = Some h"
    and "st_userId (ui w) = Some u" and "u \<noteq> []"
    and "fst b \<in> fst ` set (userBookings (remote w) u)"
  shows "fst (cancelBooking clk w) = Returned"
    and "ui (snd (cancelBooking clk w)) = (ui w)\<lparr>showCancelModal := False, message := []\<rparr>"
    and "publicBookings (remote (snd (cancelBooking clk w))) =
           publicBookings
             (cancelMatches clk 0
                (map fst (filter (\<lambda>d. equipmentId (snd d) = equipmentId (snd b) \<and> userId (snd d) = u \<and> bookedAt (snd d) = bookedAt (snd b))
                   (publicBookings (remote w))))
                (logCall True True (GetDocs (BookingsCol PublicBookings)) (remote w)))"
    and "userBookings (remote (snd (cancelBooking clk w))) =
           (userBookings (remote w))
             (u := map (\<lambda>d. if fst d = fst b
                             then (fst d, markCancelled
                                    (clk (length (filter (\<lambda>d. equipmentId (snd d) = equipmentId (snd b) \<and> userId (snd d) = u \<and> bookedAt (snd d) = bookedAt (snd b))
                   (publicBookings (remote w))))) (snd d))
                             else d)
                    (userBookings (remote w) u))"
    and "equipmentDocs (remote (snd (cancelBooking clk w))) = equipmentDocs (remote w)"
  using assms
  by (simp_all add: cancelBooking_def getBookingDocs_def updateBookingDoc_def Let_def
      cancelMatches_others logCall_docs closeCancelModal_def)

lemma cancelBooking_public:
  assumes "bookingToCancel (ui w) = Some b" and "db (ui w) = Some h"
    and "st_userId (ui w) = Some u" and "u \<noteq> []"
    and "fst b \<in> fst ` set (userBookings (remote w) u)"
  shows "list_all2 markedFrom (publicBookings (remote w))
           (publicBookings (remote (snd (cancelBooking clk w))))"
    and "d' \<in> set (publicBookings (remote (snd (cancelBooking clk w)))) \<Longrightarrow>
         correlationKey (snd d') = (equipmentId (snd b), u, bookedAt (snd b)) \<Longrightarrow>
         readsCancelled (snd d')"
proof -
  let ?m = "\<lambda>d::booking. equipmentId (snd d) = equipmentId (snd b) \<and> userId (snd d) = u
                \<and> bookedAt (snd d) = bookedAt (snd b)"
  let ?r1 = "logCall True True (GetDocs (BookingsCol PublicBookings)) (remote w)"
  let ?ids = "map fst (filter ?m (publicBookings (remote w)))"
  have eq: "publicBookings (remote (snd (cancelBooking clk w)))
              = publicBookings (cancelMatches clk 0 ?ids ?r1)"
    by (rule cancelBooking_effect(3)[OF assms])
  have "list_all2 markedFrom (publicBookings ?r1) (publicBookings (cancelMatches clk 0 ?ids ?r1))"
    by (rule cancelMatches_markedFrom)
  then show rel: "list_all2 markedFrom (publicBookings (remote w))
           (publicBookings (remote (snd (cancelBooking clk w))))"
    by (simp add: eq logCall_docs)
  assume in': "d' \<in> set (publicBookings (remote (snd (cancelBooking clk w))))"
    and key: "correlationKey (snd d') = (equipmentId (snd b), u, bookedAt (snd b))"
  from list_all2_set2[OF rel in'] obtain d
    where d: "d \<in> set (publicBookings (remote w))" "markedFrom d d'" by blast
  from markedFrom_key[OF d(2)] key have "?m d" by (simp add: correlationKey_def)
  with d(1) have "fst d \<in> set ?ids" by auto
  with d(2) have "fst d' \<in> set ?ids" by (simp add: markedFrom_def)
  with in' show "readsCancelled (snd d')"
    unfolding eq by (rule cancelMatches_cancels)
qed

lemma cancelBooking_matched_ids:
  assumes "bookingToCancel (ui w) = Some b" and "db (ui w) = Some h"
    and "st_userId (ui w) = Some u" and "u \<noteq> []"
    and "fst b \<in> fst ` set (userBookings (remote w) u)"
    and "d' \<in> set (publicBookings (remote (snd (cancelBooking clk w))))"
    and "d \<in> set (publicBookings (remote w))"
    and "equipmentId (snd d) = equipmentId (snd b) \<and> userId (snd d) = u
           \<and> bookedAt (snd d) = bookedAt (snd b)"
    and "fst d' = fst d"
  shows "readsCancelled (snd d')"
proof -
  let ?m = "\<lambda>d::booking. equipmentId (snd d) = equipmentId (snd b) \<and> userId (snd d) = u
                \<and> bookedAt (snd d) = bookedAt (snd b)"
  let ?r1 = "logCall True True (GetDocs (BookingsCol PublicBookings)) (remote w)"
  let ?ids = "map fst (filter ?m (publicBookings (remote w)))"
  have eq: "publicBookings (remote (snd (cancelBooking clk w)))
              = publicBookings (cancelMatches clk 0 ?ids ?r1)"
    by (rule cancelBooking_effect(3)[OF assms(1-5)])
  from assms(7,8) have "fst d \<in> set ?ids" by auto
  with assms(9) have "fst d' \<in> set ?ids" by simp
  with assms(6) show ?thesis unfolding eq by (rule cancelMatches_cancels)
qed

lemma cancelBooking_markedFrom:
  "list_all2 markedFrom (bookingDocs p (remote w)) (bookingDocs p (remote (snd (cancelBooking clk w))))"
proof -
  have refl: "list_all2 markedFrom (bookingDocs p (remote w)) (bookingDocs p (remote w))"
    by (simp add: list_all2_same markedFrom_refl)
  have main: "list_all2 markedFrom (bookingDocs p (remote w))
      (bookingDocs p (snd (updateBookingDoc True (UserBookings u) i (markCancelled t)
         (cancelMatches clk 0 ids (logCall True True op (remote w))))))" for u i t ids op
  proof -
    have "list_all2 markedFrom (bookingDocs p (remote w))
            (bookingDocs p (cancelMatches clk 0 ids (logCall True True op (remote w))))"
      using cancelMatches_markedFrom_any[of p "logCall True True op (remote w)" clk 0 ids]
      by (simp add: logCall_bookingDocs)
    then show ?thesis
      by (rule list_all2_markedFrom_trans[OF _ update_markedFrom])
  qed
  show ?thesis
    using refl main
    by (auto simp: cancelBooking_def getBookingDocs_def closeCancelModal_def Let_def
        case_prod_beta split: option.splits)
qed

lemma markedFrom_staysCancelled: "list_all2 markedFrom old new \<Longrightarrow> staysCancelled old new"
  unfolding staysCancelled_def
  by (auto simp: list_all2_lengthD elim!: list_all2_mono simp: markedFrom_def markCancelled_def)

lemma append_staysCancelled: "staysCancelled old (old @ xs)"
  by (simp add: staysCancelled_def list_all2_same)

subsection \<open>Events and the booking collections\<close>

lemma fire_bookings_unchanged:
  assumes "\<And>n s. e \<noteq> SubmitBooking n s" and "\<And>c. e \<noteq> CancelBooking c"
  shows "publicBookings (remote (fire cfg e w)) = publicBookings (remote w)"
    and "userBookings (remote (fire cfg e w)) = userBookings (remote w)"
  using assms
  by (cases e; simp add: fire_def simple_ops equipment_ops Let_def
        split: option.splits prod.splits)+

lemma submitBooking_appends:
  "\<exists>xs. bookingDocs p (remote (snd (submitBooking now stamp w))) = bookingDocs p (remote w) @ xs"
  by (cases p)
     (auto simp: submitBooking_def setMessage_def closeBookingModal_def getBookingDocs_def
       addBookingDoc_def logCall_def Let_def split: option.splits)

lemma submitBooking_public:
  "publicBookings (remote (snd (submitBooking now stamp w))) = publicBookings (remote w)
   \<or> (\<exists>i x. publicBookings (remote (snd (submitBooking now stamp w))) = publicBookings (remote w) @ [(i, x)]
         \<and> (\<forall>d\<in>set (publicBookings (remote w)).
               equipmentId (snd d) = equipmentId x \<and> status (snd d) = booked
                 \<longrightarrow> \<not> overlaps (Some (startDate x)) (Some (endDate x)) (snd d)))"
  by (auto simp: submitBooking_def setMessage_def closeBookingModal_def getBookingDocs_def
       addBookingDoc_def logCall_def Let_def list_ex_iff split: option.splits)

lemma bookingFormSubmit_remote:
  "remote (bookingFormSubmit now stamp w) = remote w
   \<or> remote (bookingFormSubmit now stamp w) = remote (snd (submitBooking now stamp w))"
  by (simp add: bookingFormSubmit_def)

lemma staysCancelled_refl: "staysCancelled ds ds"
  using append_staysCancelled[of ds "[]"] by simp

lemma fire_staysCancelled:
  "staysCancelled (bookingDocs p (remote w)) (bookingDocs p (remote (fire cfg e w)))"
proof (cases "(\<exists>n s. e = SubmitBooking n s) \<or> (\<exists>c. e = CancelBooking c)")
  case True
  then show ?thesis
  proof (elim disjE exE)
    fix n s assume "e = SubmitBooking n s"
    then show ?thesis
      using submitBooking_appends[of p n s "w\<lparr>fieldReport := None\<rparr>"]
        bookingFormSubmit_remote[of n s "w\<lparr>fieldReport := None\<rparr>"]
      by (auto simp: fire_def append_staysCancelled staysCancelled_refl)
  next
    fix c assume "e = CancelBooking c"
    then show ?thesis
      using cancelBooking_markedFrom[of p "w\<lparr>fieldReport := None\<rparr>" c]
      by (simp add: fire_def markedFrom_staysCancelled)
  qed
next
  case False
  then have "bookingDocs p (remote (fire cfg e w)) = bookingDocs p (remote w)"
    by (cases p) (simp_all add: fire_bookings_unchanged)
  then show ?thesis using append_staysCancelled[of "bookingDocs p (remote w)" "[]"] by simp
qed

subsection \<open>Keeping booked intervals disjoint\<close>

lemma noOverlap_markedFrom:
  assumes "list_all2 markedFrom old new" and "noOverlap q old"
  shows "noOverlap q new"
  unfolding noOverlap_def
proof (intro ballI impI)
  fix a b
  assume a: "a \<in> set new" and b: "b \<in> set new"
    and h: "a \<noteq> b \<and> equipmentId (snd a) = q \<and> equipmentId (snd b) = q
              \<and> status (snd a) = booked \<and> status (snd b) = booked"
  from list_all2_set2[OF assms(1) a] obtain a0 where a0: "a0 \<in> set old" "markedFrom a0 a" by blast
  from list_all2_set2[OF assms(1) b] obtain b0 where b0: "b0 \<in> set old" "markedFrom b0 b" by blast
  from a0(2) h have "a = a0" by (simp add: markedFrom_booked)
  moreover from b0(2) h have "b = b0" by (simp add: markedFrom_booked)
  ultimately show "\<not> (startDate (snd a) < endDate (snd b) \<and> endDate (snd a) > startDate (snd b))"
    using assms(2) a0(1) b0(1) h unfolding noOverlap_def by blast
qed

lemma noOverlap_append:
  assumes "noOverlap q ds"
    and "\<forall>d\<in>set ds. equipmentId (snd d) = equipmentId x \<and> status (snd d) = booked
                 \<longrightarrow> \<not> overlaps (Some (startDate x)) (Some (endDate x)) (snd d)"
  shows "noOverlap q (ds @ [(i, x)])"
  using assms unfolding noOverlap_def overlaps_def dateLt_def dateGt_def
  by (auto; force)

lemma fire_noOverlap:
  assumes "noOverlap q (publicBookings (remote w))"
  shows "noOverlap q (publicBookings (remote (fire cfg e w)))"
proof (cases "(\<exists>n s. e = SubmitBooking n s) \<or> (\<exists>c. e = CancelBooking c)")
  case True
  then show ?thesis
  proof (elim disjE exE)
    fix n s assume "e = SubmitBooking n s"
    then show ?thesis
      using submitBooking_public[of n s "w\<lparr>fieldReport := None\<rparr>"]
        bookingFormSubmit_remote[of n s "w\<lparr>fieldReport := None\<rparr>"] assms
      by (auto simp: fire_def noOverlap_append)
  next
    fix c assume "e = CancelBooking c"
    then show ?thesis
      using noOverlap_markedFrom[OF
          cancelBooking_markedFrom[of PublicBookings "w\<lparr>fieldReport := None\<rparr>" c]] assms
      by (simp add: fire_def)
  qed
next
  case False
  then show ?thesis using assms by (simp add: fire_bookings_unchanged)
qed

subsection \<open>The administrator flag and the unconfigured state\<close>

lemma submitBooking_isAdmin: "isAdmin (ui (snd (submitBooking now stamp w))) = isAdmin (ui w)"
  by (simp add: submitBooking_def setMessage_def closeBookingModal_def getBookingDocs_def
      Let_def split: option.splits)

lemma cancelBooking_isAdmin: "isAdmin (ui (snd (cancelBooking clk w))) = isAdmin (ui w)"
  by (simp add: cancelBooking_def closeCancelModal_def getBookingDocs_def Let_def
      case_prod_beta split: option.splits)

lemma fire_isAdmin: "isAdmin (ui (fire cfg e w)) = isAdmin (ui w)"
  by (cases e)
     (simp_all add: fire_def bookingFormSubmit_def submitBooking_isAdmin cancelBooking_isAdmin
        simple_ops equipment_ops Let_def case_prod_beta split: option.splits)

lemma reachable_isAdmin: "reachable cfg r w \<Longrightarrow> isAdmin (ui w)"
  by (induction rule: reachable.induct) (simp_all add: fire_isAdmin mount_def initialApp_def)

lemma fire_notConfigured: "notConfigured r w \<Longrightarrow> notConfigured r (fire cfg e w)"
  by (cases e)
     (simp_all add: notConfigured_def fire_def bookingFormSubmit_def addEquipmentFormSubmit_def
        editEquipmentFormSubmit_def submitBooking_def cancelBooking_def simple_ops
        addEquipment_def updateEquipment_def deleteEquipment_def split: option.splits)

subsection \<open>Adding equipment\<close>

lemma addEquipment_validation:
  "name (equipmentForm (ui w)) = [] \<or> description (equipmentForm (ui w)) = [] \<Longrightarrow>
   addEquipment t w = setMessage ''Please fill out all fields.'' w"
  by (auto simp: addEquipment_def)

lemma addEquipment_creates:
  "db (ui w) \<noteq> None \<Longrightarrow> isAdmin (ui w) \<Longrightarrow> name (equipmentForm (ui w)) \<noteq> [] \<Longrightarrow>
   description (equipmentForm (ui w)) \<noteq> [] \<Longrightarrow>
   equipmentDocs (remote (addEquipment t w)) =
     equipmentDocs (remote w) @
       [(autoId (map fst (equipmentDocs (remote w))),
         \<lparr>name = name (equipmentForm (ui w)), description = description (equipmentForm (ui w)),
          createdAt = Some t, updatedAt = None\<rparr>)]"
  by (auto simp: addEquipment_def addEquipmentDoc_def logCall_def Let_def)

subsection \<open>Reachable states and the signed-out example\<close>

lemma reachable_run: "reachable cfg r w \<Longrightarrow> reachable cfg r (run cfg es w)"
  by (induction es arbitrary: w) (simp_all add: reachable.step)

lemma aliceSignedOut_state:
  "st_userId (ui aliceSignedOut) = None"
  "db (ui aliceSignedOut) = Some Firestore"
  "selectedEquipment (ui aliceSignedOut) = Some microscope"
  "bookingToCancel (ui aliceSignedOut) = Some (''0'', alicesBooking)"
  by (simp_all add: aliceSignedOut_def aliceCancelling_def openCancelModal_def submitBooking_def
      aliceBooking_state closeBookingModal_def getBookingDocs_def addBookingDoc_def logCall_def
      overlaps_def dateLt_def dateGt_def dateGe_def exampleStore_def bobsBooking_def
      microscope_def example_defs Let_def)

section \<open>Booked intervals stay disjoint\<close>

text \<open>
  C1. Take any equipment id and any sequence of events of this client, each handled to its
  end before the next one starts: submissions, with whatever the user selects and types
  in between, cancellations and the rest. If, in the public collection, no two distinct
  booked documents of that equipment overlap before the sequence, none do after it:
  for all such \<open>a\<close> and \<open>b\<close>, not (\<open>a.startDate < b.endDate\<close> and
  \<open>a.endDate > b.startDate\<close>).
\<close>

theorem sequential_submits_keep_bookings_disjoint:
  "noOverlap q (publicBookings (remote w)) \<Longrightarrow>
   noOverlap q (publicBookings (remote (run cfg es w)))"
  by (induction es arbitrary: w) (simp_all add: fire_noOverlap)

text \<open>Alice books 08:00 to 08:30 next to Bob's 07:30 to 08:00, then 08:30 to 09:00.\<close>

theorem sequential_submits_keep_bookings_disjoint_witness:
  "noOverlap ''eq1'' (publicBookings (remote aliceBooking))
   \<and> noOverlap ''eq1''
       (publicBookings (remote (run exampleConfig
          [SubmitBooking 1000 2000,
           HandleBookingFormChange
             \<lparr>startInput = Typed 30600000 True, endInput = Typed 32400000 True\<rparr>,
           SubmitBooking 3000 4000] aliceBooking)))"
proof -
  have h: "noOverlap ''eq1'' (publicBookings (remote aliceBooking))"
    by (simp add: noOverlap_def aliceBooking_state exampleStore_def)
  from sequential_submits_keep_bookings_disjoint[OF h] h show ?thesis by blast
qed

section \<open>Submitting a booking\<close>










section \<open>Cancelling a booking\<close>

text \<open>
  C5. Let \<open>b\<close> be the booking to cancel, one of the signed-in user's own (its \<open>userId\<close>
  is the session's) whose private copy is stored under \<open>b\<close>'s id. Then \<open>cancelBooking\<close>
  returns without an error or a message, and in both collections every document keeps
  its place and its id. In the private collection the document with \<open>b\<close>'s id reads back
  with status \<open>cancelled\<close> and a \<open>cancelledAt\<close>, and the others are untouched. In the
  public collection every document keeps its correlation key, and each one whose
  \<open>(equipmentId, userId, bookedAt)\<close> equals \<open>b\<close>'s reads back with status \<open>cancelled\<close>
  and a \<open>cancelledAt\<close>; so with exactly one match both copies read back cancelled. With
  no match the public collection is left as it was, still without an error.
\<close>

theorem cancelBooking_cancels_both_copies:
  assumes "bookingToCancel (ui w) = Some b" and "db (ui w) = Some h"
    and "st_userId (ui w) = Some u" and "u \<noteq> []"
    and "userId (snd b) = u"
    and "fst b \<in> fst ` set (userBookings (remote w) u)"
  shows "fst (cancelBooking clk w) = Returned
       \<and> message (ui (snd (cancelBooking clk w))) = []
       \<and> list_all2 (\<lambda>d d'. fst d' = fst d
                      \<and> (if fst d = fst b then readsCancelled (snd d') else d' = d))
           (userBookings (remote w) u) (userBookings (remote (snd (cancelBooking clk w))) u)
       \<and> list_all2 (\<lambda>d d'. fst d' = fst d
                      \<and> correlationKey (snd d') = correlationKey (snd d)
                      \<and> (correlationKey (snd d) = correlationKey (snd b)
                           \<longrightarrow> readsCancelled (snd d')))
           (publicBookings (remote w)) (publicBookings (remote (snd (cancelBooking clk w))))
       \<and> ((\<forall>d\<in>set (publicBookings (remote w)). correlationKey (snd d) \<noteq> correlationKey (snd b))
            \<longrightarrow> publicBookings (remote (snd (cancelBooking clk w))) = publicBookings (remote w))"
proof -
  note s = assms(1-4,6)
  let ?w' = "snd (cancelBooking clk w)"
  have kb: "correlationKey (snd b) = (equipmentId (snd b), u, bookedAt (snd b))"
    using assms(5) by (simp add: correlationKey_def)
  have a: "fst (cancelBooking clk w) = Returned"
    by (rule cancelBooking_effect(1)[OF s])
  have b: "message (ui ?w') = []"
    by (simp add: cancelBooking_effect(2)[OF s])
  have c: "list_all2 (\<lambda>d d'. fst d' = fst d
                      \<and> (if fst d = fst b then readsCancelled (snd d') else d' = d))
           (userBookings (remote w) u) (userBookings (remote ?w') u)"
    by (simp add: cancelBooking_effect(4)[OF s] list_all2_map2 list_all2_same
        readsCancelled_def markCancelled_def)
  have rel: "list_all2 markedFrom (publicBookings (remote w)) (publicBookings (remote ?w'))"
    by (rule cancelBooking_public(1)[OF s])
  have d: "list_all2 (\<lambda>d d'. fst d' = fst d
                      \<and> correlationKey (snd d') = correlationKey (snd d)
                      \<and> (correlationKey (snd d) = correlationKey (snd b)
                           \<longrightarrow> readsCancelled (snd d')))
           (publicBookings (remote w)) (publicBookings (remote ?w'))"
    unfolding list_all2_conv_all_nth
  proof (intro conjI allI impI)
    show "length (publicBookings (remote w)) = length (publicBookings (remote ?w'))"
      using rel by (rule list_all2_lengthD)
  next
    fix i assume i: "i < length (publicBookings (remote w))"
    with rel have m: "markedFrom (publicBookings (remote w) ! i) (publicBookings (remote ?w') ! i)"
      by (simp add: list_all2_conv_all_nth)
    then show "fst (publicBookings (remote ?w') ! i) = fst (publicBookings (remote w) ! i)"
      by (simp add: markedFrom_def)
    from m show k: "correlationKey (snd (publicBookings (remote ?w') ! i))
                  = correlationKey (snd (publicBookings (remote w) ! i))"
      by (rule markedFrom_key)
    assume "correlationKey (snd (publicBookings (remote w) ! i)) = correlationKey (snd b)"
    with k kb have "correlationKey (snd (publicBookings (remote ?w') ! i))
                      = (equipmentId (snd b), u, bookedAt (snd b))" by simp
    moreover from i rel have "publicBookings (remote ?w') ! i \<in> set (publicBookings (remote ?w'))"
      by (simp add: list_all2_lengthD)
    ultimately show "readsCancelled (snd (publicBookings (remote ?w') ! i))"
      by (rule cancelBooking_public(2)[OF s, rotated])
  qed
  have e: "(\<forall>d\<in>set (publicBookings (remote w)). correlationKey (snd d) \<noteq> correlationKey (snd b))
            \<longrightarrow> publicBookings (remote ?w') = publicBookings (remote w)"
  proof
    assume "\<forall>d\<in>set (publicBookings (remote w)). correlationKey (snd d) \<noteq> correlationKey (snd b)"
    then have "filter (\<lambda>d. equipmentId (snd d) = equipmentId (snd b) \<and> userId (snd d) = u
                \<and> bookedAt (snd d) = bookedAt (snd b)) (publicBookings (remote w)) = []"
      unfolding kb by (auto simp: filter_empty_conv correlationKey_def)
    then show "publicBookings (remote ?w') = publicBookings (remote w)"
      by (simp add: cancelBooking_effect(3)[OF s] logCall_docs)
  qed
  from a b c d e show ?thesis by blast
qed

theorem cancelBooking_cancels_both_copies_witness:
  "fst (cancelBooking (\<lambda>k. 5000) aliceCancelling) = Returned
   \<and> list_all2 (\<lambda>d d'. fst d' = fst d
                  \<and> correlationKey (snd d') = correlationKey (snd d)
                  \<and> (correlationKey (snd d) = correlationKey alicesBooking
                       \<longrightarrow> readsCancelled (snd d')))
       [(''p1'', bobsBooking), (''000'', alicesBooking)]
       (publicBookings (remote (snd (cancelBooking (\<lambda>k. 5000) aliceCancelling))))"
proof -
  have u: "userId (snd (''0'', alicesBooking)) = ''alice''" by (simp add: alicesBooking_def)
  have p: "fst (''0'', alicesBooking) \<in> fst ` set (userBookings (remote aliceCancelling) ''alice'')"
    by (simp add: aliceCancelling_state)
  from cancelBooking_cancels_both_copies[OF aliceCancelling_state(1-3) _ u p, of "\<lambda>k. 5000"]
  show ?thesis by (simp add: aliceCancelling_state)
qed

text \<open>
  C6. Under the same conditions, cancelling the same booking a second time returns
  without an error, changes the status of no document in any collection, and leaves the
  private copy and every public copy with status \<open>cancelled\<close>. And no event of the
  application, in any state, takes a stored booking from \<open>cancelled\<close> back to \<open>booked\<close>,
  in the public collection or in a user's.
\<close>

theorem cancelBooking_twice:
  assumes "bookingToCancel (ui w) = Some b" and "db (ui w) = Some h"
    and "st_userId (ui w) = Some u" and "u \<noteq> []"
    and "userId (snd b) = u"
    and "fst b \<in> fst ` set (userBookings (remote w) u)"
  shows "fst (cancelBooking c2 (snd (cancelBooking c1 w))) = Returned
       \<and> statuses (publicBookings (remote (snd (cancelBooking c2 (snd (cancelBooking c1 w))))))
           = statuses (publicBookings (remote (snd (cancelBooking c1 w))))
       \<and> statuses (userBookings (remote (snd (cancelBooking c2 (snd (cancelBooking c1 w))))) v)
           = statuses (userBookings (remote (snd (cancelBooking c1 w))) v)
       \<and> (\<forall>d\<in>set (userBookings (remote (snd (cancelBooking c2 (snd (cancelBooking c1 w))))) u).
             fst d = fst b \<longrightarrow> status (snd d) = cancelled)
       \<and> (\<forall>d\<in>set (publicBookings (remote (snd (cancelBooking c2 (snd (cancelBooking c1 w)))))).
             correlationKey (snd d) = correlationKey (snd b) \<longrightarrow> status (snd d) = cancelled)
       \<and> staysCancelled (bookingDocs p (remote w0)) (bookingDocs p (remote (fire cfg e w0)))"
proof -
  note s = assms(1-4,6)
  let ?w1 = "snd (cancelBooking c1 w)"
  let ?w2 = "snd (cancelBooking c2 ?w1)"
  let ?m = "\<lambda>d::booking. equipmentId (snd d) = equipmentId (snd b) \<and> userId (snd d) = u
                \<and> bookedAt (snd d) = bookedAt (snd b)"
  have kb: "correlationKey (snd b) = (equipmentId (snd b), u, bookedAt (snd b))"
    using assms(5) by (simp add: correlationKey_def)
  note e1 = cancelBooking_effect[OF s, of c1]
  have u1: "bookingToCancel (ui ?w1) = Some b" "db (ui ?w1) = Some h" "st_userId (ui ?w1) = Some u"
    using assms(1-3) by (simp_all add: e1(2))
  have p1: "fst b \<in> fst ` set (userBookings (remote ?w1) u)"
  proof -
    have "map fst (userBookings (remote ?w1) u) = map fst (userBookings (remote w) u)"
      by (simp add: e1(4) update_keeps_ids del: map_map)
    then have "fst ` set (userBookings (remote ?w1) u) = fst ` set (userBookings (remote w) u)"
      by (metis set_map)
    with assms(6) show ?thesis by simp
  qed
  note s1 = u1 assms(4) p1
  note e2 = cancelBooking_effect[OF s1, of c2]
  have a: "fst (cancelBooking c2 ?w1) = Returned" by (rule e2(1))
  have rel: "list_all2 markedFrom (publicBookings (remote w)) (publicBookings (remote ?w1))"
    by (rule cancelBooking_public(1)[OF s])
  have pre: "\<forall>d\<in>set (publicBookings (logCall True True (GetDocs (BookingsCol PublicBookings)) (remote ?w1))).
               fst d \<in> set (map fst (filter ?m (publicBookings (remote ?w1))))
                 \<longrightarrow> status (snd d) = cancelled"
  proof (intro ballI impI)
    fix d
    assume "d \<in> set (publicBookings (logCall True True (GetDocs (BookingsCol PublicBookings)) (remote ?w1)))"
    then have d: "d \<in> set (publicBookings (remote ?w1))" by (simp add: logCall_docs)
    assume "fst d \<in> set (map fst (filter ?m (publicBookings (remote ?w1))))"
    then obtain m1 where m1: "m1 \<in> set (publicBookings (remote ?w1))" "?m m1" "fst m1 = fst d"
      by auto
    from list_all2_set2[OF rel m1(1)] obtain m0
      where m0: "m0 \<in> set (publicBookings (remote w))" "markedFrom m0 m1" by blast
    from markedFrom_key[OF m0(2)] m1(2) have "?m m0" by (simp add: correlationKey_def)
    moreover from m0(2) m1(3) have "fst d = fst m0" by (simp add: markedFrom_def)
    ultimately have "readsCancelled (snd d)"
      using cancelBooking_matched_ids[OF s d m0(1)] by blast
    then show "status (snd d) = cancelled" by (simp add: readsCancelled_def)
  qed
  have b: "statuses (publicBookings (remote ?w2)) = statuses (publicBookings (remote ?w1))"
    unfolding e2(3) using cancelMatches_statuses[OF pre] by (simp add: logCall_docs)
  have c: "statuses (userBookings (remote ?w2) v) = statuses (userBookings (remote ?w1) v)"
    by (simp add: e2(4) e1(4) statuses_def markCancelled_def)
  have d: "\<forall>d\<in>set (userBookings (remote ?w2) u). fst d = fst b \<longrightarrow> status (snd d) = cancelled"
    by (auto simp: e2(4) markCancelled_def)
  have e: "\<forall>d\<in>set (publicBookings (remote ?w2)).
             correlationKey (snd d) = correlationKey (snd b) \<longrightarrow> status (snd d) = cancelled"
    using cancelBooking_public(2)[OF s1, of _ c2] unfolding kb readsCancelled_def by blast
  have f: "staysCancelled (bookingDocs p (remote w0)) (bookingDocs p (remote (fire cfg e w0)))"
    by (rule fire_staysCancelled)
  from a b c d e f show ?thesis by blast
qed

theorem cancelBooking_twice_witness:
  "fst (cancelBooking (\<lambda>k. 6000) (snd (cancelBooking (\<lambda>k. 5000) aliceCancelling))) = Returned
   \<and> statuses (publicBookings (remote
         (snd (cancelBooking (\<lambda>k. 6000) (snd (cancelBooking (\<lambda>k. 5000) aliceCancelling))))))
       = statuses (publicBookings (remote (snd (cancelBooking (\<lambda>k. 5000) aliceCancelling))))"
proof -
  have u: "userId (snd (''0'', alicesBooking)) = ''alice''" by (simp add: alicesBooking_def)
  have p: "fst (''0'', alicesBooking) \<in> fst ` set (userBookings (remote aliceCancelling) ''alice'')"
    by (simp add: aliceCancelling_state)
  from cancelBooking_twice[OF aliceCancelling_state(1-3) _ u p, of "\<lambda>k. 6000" "\<lambda>k. 5000"]
  show ?thesis by simp
qed

section \<open>Editing equipment\<close>

text \<open>
  C7. In every state the application can reach, submitting the add form or the edit form
  with an empty name or an empty description writes nothing: the store, call log
  included, is as before, and a message is displayed, the browser's on the empty
  required input (and \<open>addEquipment\<close>, if it runs all the same, sets its own message and
  writes nothing either). With both fields filled in and the store handle present,
  submitting the add form appends a document with the given name and description and a
  \<open>createdAt\<close>, and submitting the edit form rewrites name and description of the
  document being edited and sets its \<open>updatedAt\<close>.
\<close>

theorem equipment_forms_require_fields:
  assumes "reachable cfg r w"
  shows "(name (equipmentForm (ui w)) = [] \<or> description (equipmentForm (ui w)) = [] \<longrightarrow>
            remote (fire cfg (AddEquipment stamp) w) = remote w
          \<and> fieldReport (fire cfg (AddEquipment stamp) w) \<noteq> None
          \<and> remote (fire cfg (UpdateEquipment stamp) w) = remote w
          \<and> fieldReport (fire cfg (UpdateEquipment stamp) w) \<noteq> None
          \<and> addEquipment stamp w = setMessage ''Please fill out all fields.'' w)
       \<and> (name (equipmentForm (ui w)) \<noteq> [] \<and> description (equipmentForm (ui w)) \<noteq> []
            \<and> db (ui w) \<noteq> None \<longrightarrow>
            equipmentDocs (remote (fire cfg (AddEquipment stamp) w)) =
              equipmentDocs (remote w) @
                [(autoId (map fst (equipmentDocs (remote w))),
                  \<lparr>name = name (equipmentForm (ui w)),
                   description = description (equipmentForm (ui w)),
                   createdAt = Some stamp, updatedAt = None\<rparr>)]
          \<and> (equipmentToEdit (ui w) = Some eq \<longrightarrow>
               equipmentDocs (remote (fire cfg (UpdateEquipment stamp) w)) =
                 map (\<lambda>d. if fst d = fst eq
                           then (fst d, (snd d)\<lparr>name := name (equipmentForm (ui w)),
                                                description := description (equipmentForm (ui w)),
                                                updatedAt := Some stamp\<rparr>)
                           else d)
                   (equipmentDocs (remote w))))"
proof -
  have adm: "isAdmin (ui w)" using assms by (rule reachable_isAdmin)
  have a: "name (equipmentForm (ui w)) = [] \<or> description (equipmentForm (ui w)) = [] \<longrightarrow>
            remote (fire cfg (AddEquipment stamp) w) = remote w
          \<and> fieldReport (fire cfg (AddEquipment stamp) w) \<noteq> None
          \<and> remote (fire cfg (UpdateEquipment stamp) w) = remote w
          \<and> fieldReport (fire cfg (UpdateEquipment stamp) w) \<noteq> None
          \<and> addEquipment stamp w = setMessage ''Please fill out all fields.'' w"
    by (auto simp: fire_def addEquipmentFormSubmit_def editEquipmentFormSubmit_def
        addEquipment_def)
  have b: "name (equipmentForm (ui w)) \<noteq> [] \<and> description (equipmentForm (ui w)) \<noteq> []
            \<and> db (ui w) \<noteq> None \<longrightarrow>
            equipmentDocs (remote (fire cfg (AddEquipment stamp) w)) =
              equipmentDocs (remote w) @
                [(autoId (map fst (equipmentDocs (remote w))),
                  \<lparr>name = name (equipmentForm (ui w)),
                   description = description (equipmentForm (ui w)),
                   createdAt = Some stamp, updatedAt = None\<rparr>)]"
    using adm
    by (auto simp: fire_def addEquipmentFormSubmit_def addEquipment_def addEquipmentDoc_def
        logCall_def Let_def)
  have c: "name (equipmentForm (ui w)) \<noteq> [] \<and> description (equipmentForm (ui w)) \<noteq> []
            \<and> db (ui w) \<noteq> None \<longrightarrow> equipmentToEdit (ui w) = Some eq \<longrightarrow>
               equipmentDocs (remote (fire cfg (UpdateEquipment stamp) w)) =
                 map (\<lambda>d. if fst d = fst eq
                           then (fst d, (snd d)\<lparr>name := name (equipmentForm (ui w)),
                                                description := description (equipmentForm (ui w)),
                                                updatedAt := Some stamp\<rparr>)
                           else d)
                   (equipmentDocs (remote w))"
  proof (intro impI)
    assume h: "name (equipmentForm (ui w)) \<noteq> [] \<and> description (equipmentForm (ui w)) \<noteq> []
            \<and> db (ui w) \<noteq> None" and e: "equipmentToEdit (ui w) = Some eq"
    show "equipmentDocs (remote (fire cfg (UpdateEquipment stamp) w)) =
                 map (\<lambda>d. if fst d = fst eq
                           then (fst d, (snd d)\<lparr>name := name (equipmentForm (ui w)),
                                                description := description (equipmentForm (ui w)),
                                                updatedAt := Some stamp\<rparr>)
                           else d)
                   (equipmentDocs (remote w))"
    proof (cases "fst eq \<in> fst ` set (equipmentDocs (remote w))")
      case True
      with h e adm show ?thesis
        by (auto simp: fire_def editEquipmentFormSubmit_def updateEquipment_def
            updateEquipmentDoc_def closeEditEquipmentModal_def logCall_def Let_def)
    next
      case False
      then have "map (\<lambda>d. if fst d = fst eq
                           then (fst d, (snd d)\<lparr>name := name (equipmentForm (ui w)),
                                                description := description (equipmentForm (ui w)),
                                                updatedAt := Some stamp\<rparr>)
                           else d)
                   (equipmentDocs (remote w)) = equipmentDocs (remote w)"
        by (intro map_idI) (force simp: image_iff)
      with False h e adm show ?thesis
        by (auto simp: fire_def editEquipmentFormSubmit_def updateEquipment_def
            updateEquipmentDoc_def setMessage_def logCall_def Let_def)
    qed
  qed
  from a b c show ?thesis by blast
qed

text \<open>The edit dialog is open on the microscope with the name emptied: submitting it
  writes nothing and the browser reports the name input.\<close>

theorem equipment_forms_require_fields_witness:
  "reachable exampleConfig exampleStore editingMicroscope
   \<and> name (equipmentForm (ui editingMicroscope)) = []
   \<and> equipmentToEdit (ui editingMicroscope) = Some microscope
   \<and> remote (fire exampleConfig (UpdateEquipment 9000) editingMicroscope) = exampleStore
   \<and> fieldReport (fire exampleConfig (UpdateEquipment 9000) editingMicroscope) = Some ''editName''"
proof -
  have r: "reachable exampleConfig exampleStore editingMicroscope"
    unfolding editingMicroscope_def by (intro reachable_run reachable.start)
  have s: "name (equipmentForm (ui editingMicroscope)) = []"
    "equipmentToEdit (ui editingMicroscope) = Some microscope"
    "remote editingMicroscope = exampleStore"
    by (simp_all add: editingMicroscope_def handleEquipmentFormChange_def
        openEditEquipmentModal_def example_defs)
  have f: "fieldReport (fire exampleConfig (UpdateEquipment 9000) editingMicroscope)
             = Some ''editName''"
    by (simp add: fire_def editEquipmentFormSubmit_def s)
  from equipment_forms_require_fields[OF r, of 9000 microscope] r s f show ?thesis by simp
qed

section \<open>The administrator flag\<close>

text \<open>
  C8. \<open>isAdmin\<close> starts true and no event changes it, so it is true in every reachable
  state, and the test of it stops none of the operations it guards: when the store handle
  is there and the other conditions of the guard hold (fields filled in for
  \<open>addEquipment\<close>, a target chosen for \<open>updateEquipment\<close> and \<open>deleteEquipment\<close>), the
  store call is issued; and the keyboard shortcut always toggles the panel.
\<close>

theorem isAdmin_constant_true:
  assumes "reachable cfg r w"
  shows "isAdmin (ui w)
       \<and> isAdmin (ui (fire cfg e w))
       \<and> (db (ui w) \<noteq> None \<and> name (equipmentForm (ui w)) \<noteq> []
            \<and> description (equipmentForm (ui w)) \<noteq> []
          \<longrightarrow> oplog (remote (addEquipment t w)) \<noteq> oplog (remote w))
       \<and> (db (ui w) \<noteq> None \<and> equipmentToEdit (ui w) \<noteq> None
          \<longrightarrow> oplog (remote (updateEquipment t w)) \<noteq> oplog (remote w))
       \<and> (db (ui w) \<noteq> None \<and> equipmentToDelete (ui w) \<noteq> None
          \<longrightarrow> oplog (remote (deleteEquipment w)) \<noteq> oplog (remote w))
       \<and> showAdminPanel (ui (adminShortcut w)) = (\<not> showAdminPanel (ui w))"
proof -
  have a: "isAdmin (ui w)" using assms by (rule reachable_isAdmin)
  then have b: "isAdmin (ui (fire cfg e w))" by (simp add: fire_isAdmin)
  from a have c: "db (ui w) \<noteq> None \<and> name (equipmentForm (ui w)) \<noteq> []
            \<and> description (equipmentForm (ui w)) \<noteq> []
          \<longrightarrow> oplog (remote (addEquipment t w)) \<noteq> oplog (remote w)"
    by (simp add: addEquipment_def addEquipmentDoc_def logCall_def Let_def)
  from a have d: "db (ui w) \<noteq> None \<and> equipmentToEdit (ui w) \<noteq> None
          \<longrightarrow> oplog (remote (updateEquipment t w)) \<noteq> oplog (remote w)"
    by (auto simp: updateEquipment_def updateEquipmentDoc_def logCall_def setMessage_def
        closeEditEquipmentModal_def Let_def split: if_splits)
  from a have e: "db (ui w) \<noteq> None \<and> equipmentToDelete (ui w) \<noteq> None
          \<longrightarrow> oplog (remote (deleteEquipment w)) \<noteq> oplog (remote w)"
    by (auto simp: deleteEquipment_def deleteEquipmentDoc_def logCall_def
        closeDeleteEquipmentModal_def)
  from a have f: "showAdminPanel (ui (adminShortcut w)) = (\<not> showAdminPanel (ui w))"
    by (simp add: adminShortcut_def)
  from a b c d e f show ?thesis by blast
qed

theorem isAdmin_constant_true_witness:
  "reachable exampleConfig exampleStore
     (fire exampleConfig (HandleEquipmentFormChange \<lparr>name = ''Scale'', description = ''Balance''\<rparr>)
        (mount exampleConfig exampleStore))
   \<and> isAdmin (ui (fire exampleConfig
        (HandleEquipmentFormChange \<lparr>name = ''Scale'', description = ''Balance''\<rparr>)
        (mount exampleConfig exampleStore)))
   \<and> oplog (remote (addEquipment 7000 (fire exampleConfig
        (HandleEquipmentFormChange \<lparr>name = ''Scale'', description = ''Balance''\<rparr>)
        (mount exampleConfig exampleStore)))) \<noteq> []"
proof -
  let ?w = "fire exampleConfig
        (HandleEquipmentFormChange \<lparr>name = ''Scale'', description = ''Balance''\<rparr>)
        (mount exampleConfig exampleStore)"
  have r: "reachable exampleConfig exampleStore ?w"
    by (rule reachable.step[OF reachable.start])
  have g: "db (ui ?w) \<noteq> None \<and> name (equipmentForm (ui ?w)) \<noteq> []
            \<and> description (equipmentForm (ui ?w)) \<noteq> []"
    by (simp add: handleEquipmentFormChange_def example_defs)
  have o: "oplog (remote ?w) = []"
    by (simp add: handleEquipmentFormChange_def example_defs)
  from isAdmin_constant_true[OF r, of _ 7000] r g o show ?thesis by metis
qed

section \<open>Starting without configuration\<close>

text \<open>
  C9, as the claim states it, fails: the startup effect tests the API key only. Without a
  project identifier and with an API key it logs nothing and goes on to create the
  handles. And where the key is missing, \<open>isAuthReady\<close> is set to true, not left false.
\<close>

theorem missing_projectId_undetected:
  "falsy (projectId noProjectConfig)
   \<and> consoleErrors (ui (mount noProjectConfig exampleStore)) = []
   \<and> db (ui (mount noProjectConfig exampleStore)) = Some Firestore
   \<and> falsy (apiKey noKeyConfig)
   \<and> isAuthReady (ui (mount noKeyConfig exampleStore))"
  by (simp add: noProjectConfig_def noKeyConfig_def exampleConfig_def falsy_def mount_def
      initialApp_def)

text \<open>
  C9, amended. When the API key is absent or empty, in every state the application can
  reach: the error is on the console, the store and identity handles are absent and no
  user is signed in, \<open>isAuthReady\<close> is true, and no call to the store has been issued.
  The startup effect returns normally.
\<close>

theorem missing_apiKey_not_configured:
  assumes "falsy (apiKey cfg)" and "reachable cfg r w"
  shows "notConfigured r w"
  using assms(2)
proof (induction rule: reachable.induct)
  case start
  from assms(1) show ?case by (simp add: notConfigured_def mount_def initialApp_def)
next
  case (step w e)
  then show ?case by (simp add: fire_notConfigured)
next
  case (external w es ps us)
  then show ?case by (simp add: notConfigured_def)
qed

theorem missing_apiKey_not_configured_witness:
  "falsy (apiKey noKeyConfig)
   \<and> notConfigured exampleStore
       (fire noKeyConfig (SubmitBooking 1000 2000)
          (fire noKeyConfig (OpenBookingModal microscope 28800000 30600000) (mount noKeyConfig exampleStore)))"
proof -
  have k: "falsy (apiKey noKeyConfig)"
    by (simp add: noKeyConfig_def exampleConfig_def falsy_def)
  have r: "reachable noKeyConfig exampleStore
       (fire noKeyConfig (SubmitBooking 1000 2000)
          (fire noKeyConfig (OpenBookingModal microscope 28800000 30600000) (mount noKeyConfig exampleStore)))"
    by (intro reachable.step reachable.start)
  from missing_apiKey_not_configured[OF k r] k show ?thesis by simp
qed

section \<open>Without a session\<close>

text \<open>
  C10. When no user is signed in (\<open>userId\<close> is null) or the store handle is absent,
  \<open>submitBooking\<close> and \<open>cancelBooking\<close> return at once: the whole state, the component's
  (message and views included) and the store's (documents and call log), is unchanged,
  and neither call rejects.
\<close>

theorem unauthenticated_noop:
  "st_userId (ui w) = None \<or> db (ui w) = None \<Longrightarrow>
   submitBooking now stamp w = (Returned, w) \<and> cancelBooking clk w = (Returned, w)"
  by (auto simp: submitBooking_def cancelBooking_def split: option.splits)

text \<open>Alice's session ended with the microscope selected, a valid form and her booking
  chosen for cancelling: only the test of \<open>userId\<close> stops the two calls.\<close>

theorem unauthenticated_noop_witness:
  "st_userId (ui aliceSignedOut) = None
   \<and> db (ui aliceSignedOut) = Some Firestore
   \<and> selectedEquipment (ui aliceSignedOut) = Some microscope
   \<and> bookingToCancel (ui aliceSignedOut) = Some (''0'', alicesBooking)
   \<and> submitBooking 1000 2000 aliceSignedOut = (Returned, aliceSignedOut)
   \<and> cancelBooking (\<lambda>k. 3000) aliceSignedOut = (Returned, aliceSignedOut)"
proof -
  note s = aliceSignedOut_state
  from unauthenticated_noop[OF disjI1, OF s(1)] s show ?thesis by simp
qed

end
